theory Spec2Isabelle
  imports Complex_Main "HOL-Library.Sublist" "HOL-Library.Extended_Nat"
begin

section \<open>Shared types (src/types/bear.types.ts)\<close>

datatype DeviceType = Desktop | Tablet | Mobile

datatype PerformanceTier = High | Medium | Low

datatype Orientation = Portrait | Landscape

datatype AnimationCategory = Dance | Action | Gesture | Movement | Emotion

text \<open>The loading status \<^verbatim>\<open>'error'\<close> is \<open>LoadFailed\<close> here.\<close>

datatype LoadingStatus = Idle | Loading | Loaded | LoadFailed

record ColorScheme =
  hueShift :: real
  colorFrequency :: real
  bloom :: real
  saturation :: real

text \<open>The field \<^verbatim>\<open>id\<close> of the source is \<open>id_field\<close> here, \<open>id\<close> being the identity function of HOL.\<close>

record Animation =
  id_field :: string
  name :: string
  displayName :: string
  duration :: real
  colorScheme :: ColorScheme
  category :: AnimationCategory


text \<open>
  A call either returns or throws; in both cases the state it leaves behind is kept, since
  what a call has written before it throws stays written.
\<close>

datatype JSError = TypeError

datatype 'a Outcome = Returns 'a | Throws JSError 'a

text \<open>\<^verbatim>\<open>BREAKPOINTS = { mobile: 768, tablet: 1024 }\<close> and \<^verbatim>\<open>MIN_VIEWPORT_WIDTH = 320\<close>.\<close>

definition BREAKPOINTS_mobile :: int where
  "BREAKPOINTS_mobile = 768"

definition BREAKPOINTS_tablet :: int where
  "BREAKPOINTS_tablet = 1024"

definition MIN_VIEWPORT_WIDTH :: int where
  "MIN_VIEWPORT_WIDTH = 320"

section \<open>The animation catalog (utils/animation-config.ts)\<close>

text \<open>
  \<^verbatim>\<open>ANIMATIONS = Object.values(ANIMATION_CONFIG)\<close>: the entries of the configuration object
  in the order in which the object literal lists them.
\<close>

definition ANIMATIONS :: "Animation list" where
  "ANIMATIONS =
    [
      \<lparr> id_field = ''hip-hop-dancing'', name = ''hip-hop-dancing'', displayName = ''Hip Hop Dancing'', duration = 3.5,
        colorScheme = \<lparr> hueShift = 0.8, colorFrequency = 1.5, bloom = 1.8, saturation = 1.7 \<rparr>,
        category = Dance \<rparr>,
      \<lparr> id_field = ''jumping'', name = ''jumping'', displayName = ''Jumping'', duration = 1.2,
        colorScheme = \<lparr> hueShift = 0.3, colorFrequency = 1.8, bloom = 1.5, saturation = 1.5 \<rparr>,
        category = Action \<rparr>,
      \<lparr> id_field = ''punching'', name = ''punching'', displayName = ''Punching'', duration = 1.5,
        colorScheme = \<lparr> hueShift = - 0.5, colorFrequency = 1.6, bloom = 1.7, saturation = 1.8 \<rparr>,
        category = Action \<rparr>,
      \<lparr> id_field = ''running'', name = ''running'', displayName = ''Running'', duration = 2.0,
        colorScheme = \<lparr> hueShift = 0.4, colorFrequency = 1.7, bloom = 1.4, saturation = 1.6 \<rparr>,
        category = Movement \<rparr>,
      \<lparr> id_field = ''sitting-clap'', name = ''sitting-clap'', displayName = ''Sitting Clap'', duration = 2.5,
        colorScheme = \<lparr> hueShift = 0.6, colorFrequency = 1.3, bloom = 1.5, saturation = 1.4 \<rparr>,
        category = Gesture \<rparr>,
      \<lparr> id_field = ''sitting-pose'', name = ''sitting-pose'', displayName = ''Sitting Pose'', duration = 3.0,
        colorScheme = \<lparr> hueShift = 0.2, colorFrequency = 1.0, bloom = 1.3, saturation = 1.3 \<rparr>,
        category = Gesture \<rparr>,
      \<lparr> id_field = ''walking'', name = ''walking'', displayName = ''Walking'', duration = 2.5,
        colorScheme = \<lparr> hueShift = 0.1, colorFrequency = 1.2, bloom = 1.2, saturation = 1.4 \<rparr>,
        category = Movement \<rparr>,
      \<lparr> id_field = ''weaving'', name = ''weaving'', displayName = ''Weaving'', duration = 2.8,
        colorScheme = \<lparr> hueShift = 0.7, colorFrequency = 1.4, bloom = 1.6, saturation = 1.5 \<rparr>,
        category = Movement \<rparr>,
      \<lparr> id_field = ''cheering'', name = ''cheering'', displayName = ''Cheering'', duration = 2.2,
        colorScheme = \<lparr> hueShift = 0.9, colorFrequency = 1.6, bloom = 1.9, saturation = 1.9 \<rparr>,
        category = Emotion \<rparr>,
      \<lparr> id_field = ''crying'', name = ''crying'', displayName = ''Crying'', duration = 3.0,
        colorScheme = \<lparr> hueShift = - 0.8, colorFrequency = 0.8, bloom = 1.1, saturation = 1.2 \<rparr>,
        category = Emotion \<rparr>,
      \<lparr> id_field = ''bowing'', name = ''bowing'', displayName = ''Bowing'', duration = 2.0,
        colorScheme = \<lparr> hueShift = 0.5, colorFrequency = 1.1, bloom = 1.4, saturation = 1.3 \<rparr>,
        category = Gesture \<rparr>,
      \<lparr> id_field = ''noding'', name = ''noding'', displayName = ''Nodding'', duration = 1.5,
        colorScheme = \<lparr> hueShift = 0.3, colorFrequency = 1.3, bloom = 1.3, saturation = 1.4 \<rparr>,
        category = Gesture \<rparr>,
      \<lparr> id_field = ''head-spinning'', name = ''head-spinning'', displayName = ''Head Spinning'', duration = 2.5,
        colorScheme = \<lparr> hueShift = 1.0, colorFrequency = 1.9, bloom = 1.8, saturation = 1.8 \<rparr>,
        category = Action \<rparr>,
      \<lparr> id_field = ''welcome'', name = ''welcome'', displayName = ''Welcome'', duration = 2.0,
        colorScheme = \<lparr> hueShift = 0.6, colorFrequency = 1.4, bloom = 1.6, saturation = 1.6 \<rparr>,
        category = Gesture \<rparr>,
      \<lparr> id_field = ''clapping'', name = ''clapping'', displayName = ''Clapping'', duration = 1.8,
        colorScheme = \<lparr> hueShift = 0.4, colorFrequency = 1.5, bloom = 1.5, saturation = 1.5 \<rparr>,
        category = Gesture \<rparr>,
      \<lparr> id_field = ''climbing'', name = ''climbing'', displayName = ''Climbing'', duration = 3.5,
        colorScheme = \<lparr> hueShift = 0.2, colorFrequency = 1.3, bloom = 1.4, saturation = 1.5 \<rparr>,
        category = Action \<rparr>,
      \<lparr> id_field = ''run-away'', name = ''run-away'', displayName = ''Run Away'', duration = 2.3,
        colorScheme = \<lparr> hueShift = - 0.3, colorFrequency = 1.7, bloom = 1.6, saturation = 1.7 \<rparr>,
        category = Movement \<rparr>,
      \<lparr> id_field = ''praying'', name = ''praying'', displayName = ''Praying'', duration = 3.0,
        colorScheme = \<lparr> hueShift = 0.5, colorFrequency = 0.9, bloom = 1.3, saturation = 1.2 \<rparr>,
        category = Gesture \<rparr>,
      \<lparr> id_field = ''fall-down'', name = ''fall-down'', displayName = ''Fall Down'', duration = 2.0,
        colorScheme = \<lparr> hueShift = - 0.6, colorFrequency = 1.4, bloom = 1.2, saturation = 1.3 \<rparr>,
        category = Action \<rparr>,
      \<lparr> id_field = ''looking-right'', name = ''looking-right'', displayName = ''Looking Right'', duration = 1.5,
        colorScheme = \<lparr> hueShift = 0.3, colorFrequency = 1.1, bloom = 1.3, saturation = 1.3 \<rparr>,
        category = Gesture \<rparr>,
      \<lparr> id_field = ''laying'', name = ''laying'', displayName = ''Laying'', duration = 2.5,
        colorScheme = \<lparr> hueShift = 0.1, colorFrequency = 0.8, bloom = 1.2, saturation = 1.2 \<rparr>,
        category = Gesture \<rparr>,
      \<lparr> id_field = ''lying-down'', name = ''lying-down'', displayName = ''Lying Down'', duration = 2.8,
        colorScheme = \<lparr> hueShift = 0.0, colorFrequency = 0.7, bloom = 1.1, saturation = 1.1 \<rparr>,
        category = Gesture \<rparr>,
      \<lparr> id_field = ''salute'', name = ''salute'', displayName = ''Salute'', duration = 1.8,
        colorScheme = \<lparr> hueShift = 0.4, colorFrequency = 1.2, bloom = 1.4, saturation = 1.4 \<rparr>,
        category = Gesture \<rparr>,
      \<lparr> id_field = ''melee-attack'', name = ''melee-attack'', displayName = ''Melee Attack'', duration = 2.0,
        colorScheme = \<lparr> hueShift = - 0.7, colorFrequency = 1.8, bloom = 1.9, saturation = 1.9 \<rparr>,
        category = Action \<rparr>,
      \<lparr> id_field = ''heavy-hit'', name = ''heavy-hit'', displayName = ''Heavy Hit'', duration = 1.5,
        colorScheme = \<lparr> hueShift = - 0.9, colorFrequency = 1.9, bloom = 2.0, saturation = 2.0 \<rparr>,
        category = Action \<rparr>,
      \<lparr> id_field = ''look-around'', name = ''look-around'', displayName = ''Look Around'', duration = 2.5,
        colorScheme = \<lparr> hueShift = 0.2, colorFrequency = 1.2, bloom = 1.3, saturation = 1.3 \<rparr>,
        category = Gesture \<rparr>,
      \<lparr> id_field = ''situp'', name = ''situp'', displayName = ''Sit Up'', duration = 2.0,
        colorScheme = \<lparr> hueShift = 0.3, colorFrequency = 1.3, bloom = 1.4, saturation = 1.4 \<rparr>,
        category = Action \<rparr>,
      \<lparr> id_field = ''soul-spin'', name = ''soul-spin'', displayName = ''Soul Spin'', duration = 3.0,
        colorScheme = \<lparr> hueShift = 1.2, colorFrequency = 1.8, bloom = 1.9, saturation = 1.9 \<rparr>,
        category = Dance \<rparr>,
      \<lparr> id_field = ''break-dance'', name = ''break-dance'', displayName = ''Break Dance'', duration = 4.0,
        colorScheme = \<lparr> hueShift = 0.9, colorFrequency = 1.7, bloom = 1.8, saturation = 1.8 \<rparr>,
        category = Dance \<rparr>,
      \<lparr> id_field = ''swing-dance'', name = ''swing-dance'', displayName = ''Swing Dance'', duration = 3.5,
        colorScheme = \<lparr> hueShift = 0.7, colorFrequency = 1.6, bloom = 1.7, saturation = 1.7 \<rparr>,
        category = Dance \<rparr>,
      \<lparr> id_field = ''jogging-box'', name = ''jogging-box'', displayName = ''Jogging Box'', duration = 2.5,
        colorScheme = \<lparr> hueShift = 0.4, colorFrequency = 1.5, bloom = 1.5, saturation = 1.6 \<rparr>,
        category = Movement \<rparr>,
      \<lparr> id_field = ''clown-walk'', name = ''clown-walk'', displayName = ''Clown Walk'', duration = 2.8,
        colorScheme = \<lparr> hueShift = 0.8, colorFrequency = 1.6, bloom = 1.7, saturation = 1.7 \<rparr>,
        category = Movement \<rparr>,
      \<lparr> id_field = ''jumping-jack'', name = ''jumping-jack'', displayName = ''Jumping Jack'', duration = 2.0,
        colorScheme = \<lparr> hueShift = 0.5, colorFrequency = 1.6, bloom = 1.6, saturation = 1.6 \<rparr>,
        category = Action \<rparr>,
      \<lparr> id_field = ''strong-gesture'', name = ''strong-gesture'', displayName = ''Strong Gesture'', duration = 1.8,
        colorScheme = \<lparr> hueShift = 0.6, colorFrequency = 1.4, bloom = 1.7, saturation = 1.7 \<rparr>,
        category = Gesture \<rparr>,
      \<lparr> id_field = ''dancing'', name = ''dancing'', displayName = ''Dancing'', duration = 3.5,
        colorScheme = \<lparr> hueShift = 0.8, colorFrequency = 1.5, bloom = 1.7, saturation = 1.7 \<rparr>,
        category = Dance \<rparr>,
      \<lparr> id_field = ''praying-down'', name = ''praying-down'', displayName = ''Praying Down'', duration = 3.0,
        colorScheme = \<lparr> hueShift = 0.4, colorFrequency = 0.9, bloom = 1.2, saturation = 1.2 \<rparr>,
        category = Gesture \<rparr>,
      \<lparr> id_field = ''silly-dancing'', name = ''silly-dancing'', displayName = ''Silly Dancing'', duration = 3.2,
        colorScheme = \<lparr> hueShift = 1.0, colorFrequency = 1.8, bloom = 1.9, saturation = 1.9 \<rparr>,
        category = Dance \<rparr>,
      \<lparr> id_field = ''standing-clap'', name = ''standing-clap'', displayName = ''Standing Clap'', duration = 2.0,
        colorScheme = \<lparr> hueShift = 0.5, colorFrequency = 1.4, bloom = 1.5, saturation = 1.5 \<rparr>,
        category = Gesture \<rparr>,
      \<lparr> id_field = ''sneaking-right'', name = ''sneaking-right'', displayName = ''Sneaking Right'', duration = 2.5,
        colorScheme = \<lparr> hueShift = 0.2, colorFrequency = 1.2, bloom = 1.3, saturation = 1.4 \<rparr>,
        category = Movement \<rparr>,
      \<lparr> id_field = ''standing-torch-run-forward'', name = ''standing-torch-run-forward'', displayName = ''Torch Run Forward'', duration = 2.5,
        colorScheme = \<lparr> hueShift = 0.6, colorFrequency = 1.5, bloom = 1.8, saturation = 1.7 \<rparr>,
        category = Movement \<rparr>
    ]"

definition getAnimationByIndex :: "nat \<Rightarrow> Animation option" where
  "getAnimationByIndex i = (if i < length ANIMATIONS then Some (ANIMATIONS ! i) else None)"

section \<open>Viewport tracking (hook useResponsive)\<close>

text \<open>
  The hook keeps two pieces of component state, \<open>width\<close> and \<open>height\<close>, initialised from
  \<^verbatim>\<open>window.innerWidth\<close> and \<^verbatim>\<open>window.innerHeight\<close>, which the browser reports as integers.
  Everything the hook returns is derived from these two numbers on each render.
\<close>

record UseResponsiveReturn =
  width :: int
  height :: int
  deviceType :: DeviceType
  orientation :: Orientation
  isMobile :: bool
  isTablet :: bool
  isDesktop :: bool
  isPortrait :: bool
  isLandscape :: bool
  isBelowMinWidth :: bool

definition deviceType_of :: "int \<Rightarrow> DeviceType" where
  "deviceType_of w =
     (if w < BREAKPOINTS_mobile then Mobile
      else if w < BREAKPOINTS_tablet then Tablet else Desktop)"

definition orientation_of :: "int \<Rightarrow> int \<Rightarrow> Orientation" where
  "orientation_of w h = (if w > h then Landscape else Portrait)"

definition useResponsive_return :: "int \<Rightarrow> int \<Rightarrow> UseResponsiveReturn" where
  "useResponsive_return w h =
     \<lparr> width = w, height = h,
       deviceType = deviceType_of w,
       orientation = orientation_of w h,
       isMobile = (deviceType_of w = Mobile),
       isTablet = (deviceType_of w = Tablet),
       isDesktop = (deviceType_of w = Desktop),
       isPortrait = (orientation_of w h = Portrait),
       isLandscape = (orientation_of w h = Landscape),
       isBelowMinWidth = (w < MIN_VIEWPORT_WIDTH) \<rparr>"

text \<open>
  The resize listener is debounced. The model keeps the window's real size next to the
  hook's state, and the pending timeout as the number of milliseconds left before its
  callback runs. \<open>handleResize\<close> clears a pending timeout and arms a new one of 100 ms;
  the callback then copies the window size, as it is at that moment, into the state.
\<close>

record Viewport =
  innerWidth :: int
  innerHeight :: int
  stateWidth :: int
  stateHeight :: int
  timeoutId :: "nat option"

datatype ViewportEvent = WindowResized int int | Elapsed nat

definition mountViewport :: "int \<Rightarrow> int \<Rightarrow> Viewport" where
  "mountViewport w h =
     \<lparr> innerWidth = w, innerHeight = h, stateWidth = w, stateHeight = h, timeoutId = None \<rparr>"

definition handleResize :: "Viewport \<Rightarrow> Viewport" where
  "handleResize v = v\<lparr> timeoutId := Some 100 \<rparr>"

definition timeoutCallback :: "Viewport \<Rightarrow> Viewport" where
  "timeoutCallback v =
     v\<lparr> stateWidth := innerWidth v, stateHeight := innerHeight v, timeoutId := None \<rparr>"

fun viewportStep :: "Viewport \<Rightarrow> ViewportEvent \<Rightarrow> Viewport" where
  "viewportStep v (WindowResized w h) =
     handleResize (v\<lparr> innerWidth := w, innerHeight := h \<rparr>)"
| "viewportStep v (Elapsed ms) =
     (case timeoutId v of
        None \<Rightarrow> v
      | Some left \<Rightarrow>
          if left \<le> ms then timeoutCallback v
          else v\<lparr> timeoutId := Some (left - ms) \<rparr>)"

definition viewportRun :: "Viewport \<Rightarrow> ViewportEvent list \<Rightarrow> Viewport" where
  "viewportRun v evs = foldl viewportStep v evs"

definition useResponsive :: "Viewport \<Rightarrow> UseResponsiveReturn" where
  "useResponsive v = useResponsive_return (stateWidth v) (stateHeight v)"

section \<open>Device capability detection (hook useDevicePerformance)\<close>

text \<open>
  What the effect reads from the browser. A rendering context, when the canvas gives one,
  either has a \<^verbatim>\<open>getExtension\<close> member or not; \<open>unmaskedRenderer\<close> is \<open>Some r\<close> when the
  extension \<^verbatim>\<open>WEBGL_debug_renderer_info\<close> is present and the renderer string read through it
  is \<open>r\<close>. \<open>deviceMemory\<close> and \<open>devicePixelRatio\<close> are \<open>None\<close> where the browser does not
  define them.
\<close>

record WebGLContext =
  hasGetExtension :: bool
  unmaskedRenderer :: "string option"

record Browser =
  context_webgl :: "WebGLContext option"
  context_experimental_webgl :: "WebGLContext option"
  userAgent :: string
  deviceMemory :: "real option"
  devicePixelRatio :: "real option"

record DevicePerformance =
  tier :: PerformanceTier
  gpuInfo :: string
  supportsWebGL :: bool

text \<open>The three \<^verbatim>\<open>useState\<close> initial values.\<close>

definition initialDevicePerformance :: DevicePerformance where
  "initialDevicePerformance = \<lparr> tier = Medium, gpuInfo = [], supportsWebGL = True \<rparr>"

text \<open>\<^verbatim>\<open>String.prototype.includes\<close>: the argument occurs as a contiguous piece.\<close>

definition str_includes :: "string \<Rightarrow> string \<Rightarrow> bool" where
  "str_includes s piece = sublist piece s"

text \<open>
  The test \<^verbatim>\<open>/Mobi|Android/i\<close>: one of the two words occurs, letters compared without
  regard to case.
\<close>

definition toLowerASCII :: "char \<Rightarrow> char" where
  "toLowerASCII c =
     (let n = (of_char c :: nat) in if 65 \<le> n \<and> n \<le> 90 then char_of (n + 32) else c)"

definition isMobileUserAgent :: "string \<Rightarrow> bool" where
  "isMobileUserAgent ua =
     (str_includes (map toLowerASCII ua) ''mobi'' \<or> str_includes (map toLowerASCII ua) ''android'')"

text \<open>\<^verbatim>\<open>canvas.getContext('webgl') || canvas.getContext('experimental-webgl')\<close>\<close>

definition getContext :: "Browser \<Rightarrow> WebGLContext option" where
  "getContext b =
     (case context_webgl b of Some gl \<Rightarrow> Some gl | None \<Rightarrow> context_experimental_webgl b)"

text \<open>The chain of \<^verbatim>\<open>renderer.includes\<close> tests; a renderer that matches none leaves the tier.\<close>

definition classifyRenderer :: "string \<Rightarrow> DevicePerformance \<Rightarrow> DevicePerformance" where
  "classifyRenderer renderer s =
     (if str_includes renderer ''Intel'' then s\<lparr> tier := Medium \<rparr>
      else if str_includes renderer ''NVIDIA'' \<or> str_includes renderer ''AMD''
              \<or> str_includes renderer ''Radeon'' then s\<lparr> tier := High \<rparr>
      else if str_includes renderer ''Apple'' then s\<lparr> tier := High \<rparr>
      else s)"

definition rendererStep :: "WebGLContext \<Rightarrow> DevicePerformance \<Rightarrow> DevicePerformance" where
  "rendererStep gl s =
     (case unmaskedRenderer gl of
        None \<Rightarrow> s
      | Some renderer \<Rightarrow> classifyRenderer renderer (s\<lparr> gpuInfo := renderer \<rparr>))"

text \<open>The two updater functions passed to \<^verbatim>\<open>setTier\<close>.\<close>

definition mobileCap :: "PerformanceTier \<Rightarrow> PerformanceTier" where
  "mobileCap prev = (if prev = High then Medium else Low)"

definition memoryCap :: "PerformanceTier \<Rightarrow> PerformanceTier" where
  "memoryCap prev = (if prev = High then Medium else Low)"

definition mobileStep :: "Browser \<Rightarrow> DevicePerformance \<Rightarrow> DevicePerformance" where
  "mobileStep b s =
     (if isMobileUserAgent (userAgent b) then s\<lparr> tier := mobileCap (tier s) \<rparr> else s)"

text \<open>\<^verbatim>\<open>memory && memory < 4\<close>: an undefined or zero \<open>deviceMemory\<close> is falsy.\<close>

definition isLowMemory :: "real option \<Rightarrow> bool" where
  "isLowMemory memory = (case memory of None \<Rightarrow> False | Some m \<Rightarrow> m \<noteq> 0 \<and> m < 4)"

definition memoryStep :: "Browser \<Rightarrow> DevicePerformance \<Rightarrow> DevicePerformance" where
  "memoryStep b s =
     (if isLowMemory (deviceMemory b) then s\<lparr> tier := memoryCap (tier s) \<rparr> else s)"

text \<open>
  The body of the effect. State updates queued in one effect are applied in the order of
  the calls, an updater function receiving the result of the update before it.
\<close>

definition detectEffect :: "Browser \<Rightarrow> DevicePerformance \<Rightarrow> DevicePerformance" where
  "detectEffect b s =
     (case getContext b of
        None \<Rightarrow> s\<lparr> supportsWebGL := False, tier := Low \<rparr>
      | Some gl \<Rightarrow>
          if \<not> hasGetExtension gl then s\<lparr> supportsWebGL := False, tier := Low \<rparr>
          else memoryStep b (mobileStep b (rendererStep gl s)))"

definition targetFPS_of :: "PerformanceTier \<Rightarrow> nat" where
  "targetFPS_of t = (if t = Low then 18 else 30)"

text \<open>\<^verbatim>\<open>Math.min(2, window.devicePixelRatio || 1)\<close>: an undefined or zero ratio is falsy.\<close>

definition pixelRatio_of :: "real option \<Rightarrow> real" where
  "pixelRatio_of dpr =
     min 2 (case dpr of None \<Rightarrow> 1 | Some r \<Rightarrow> if r = 0 then 1 else r)"

record UseDevicePerformanceReturn =
  ret_tier :: PerformanceTier
  ret_targetFPS :: nat
  ret_supportsWebGL :: bool
  ret_gpuInfo :: string
  ret_pixelRatio :: real

definition useDevicePerformance :: "Browser \<Rightarrow> DevicePerformance \<Rightarrow> UseDevicePerformanceReturn" where
  "useDevicePerformance b s =
     \<lparr> ret_tier = tier s,
       ret_targetFPS = targetFPS_of (tier s),
       ret_supportsWebGL = supportsWebGL s,
       ret_gpuInfo = gpuInfo s,
       ret_pixelRatio = pixelRatio_of (devicePixelRatio b) \<rparr>"

text \<open>
  What can happen to the hook's state after the component has mounted: the effect has an
  empty dependency list and runs once, so a later render leaves the state alone, and the
  only other writer is the setter the hook hands out.
\<close>

datatype PerformanceEvent = Rerender | SetTier PerformanceTier

fun performanceStep :: "DevicePerformance \<Rightarrow> PerformanceEvent \<Rightarrow> DevicePerformance" where
  "performanceStep s Rerender = s"
| "performanceStep s (SetTier t) = s\<lparr> tier := t \<rparr>"

definition mountDevicePerformance :: "Browser \<Rightarrow> DevicePerformance" where
  "mountDevicePerformance b = detectEffect b initialDevicePerformance"

definition performanceRun :: "DevicePerformance \<Rightarrow> PerformanceEvent list \<Rightarrow> DevicePerformance" where
  "performanceRun s evs = foldl performanceStep s evs"

fun isOverride :: "PerformanceEvent \<Rightarrow> bool" where
  "isOverride Rerender = False"
| "isOverride (SetTier t) = True"

text \<open>The order of the tiers, low below medium below high.\<close>

fun tierRank :: "PerformanceTier \<Rightarrow> nat" where
  "tierRank Low = 0"
| "tierRank Medium = 1"
| "tierRank High = 2"

section \<open>Animation playback (hook useBearModel)\<close>

text \<open>
  The animation actions belong to the three.js library. The record keeps the part of one
  action's state that its methods \<^verbatim>\<open>stop\<close>, \<^verbatim>\<open>reset\<close>, \<^verbatim>\<open>fadeIn\<close>, \<^verbatim>\<open>play\<close> and
  \<^verbatim>\<open>setLoop\<close> write, as the library documents them: \<open>scheduled\<close> says that the mixer holds
  the action among its active ones (\<^verbatim>\<open>play\<close> puts it there, \<^verbatim>\<open>stop\<close> takes it out);
  \<open>fadeInDuration\<close> is the fade that \<^verbatim>\<open>fadeIn\<close> schedules and \<^verbatim>\<open>reset\<close> cancels.
\<close>

datatype AnimationActionLoopStyles = LoopOnce | LoopRepeat | LoopPingPong

record AnimationAction =
  scheduled :: bool
  paused :: bool
  enabled :: bool
  time :: real
  fadeInDuration :: "real option"
  loop :: AnimationActionLoopStyles
  repetitions :: enat

definition reset :: "AnimationAction \<Rightarrow> AnimationAction" where
  "reset a = a\<lparr> paused := False, enabled := True, time := 0, fadeInDuration := None \<rparr>"

definition stop :: "AnimationAction \<Rightarrow> AnimationAction" where
  "stop a = reset (a\<lparr> scheduled := False \<rparr>)"

definition fadeIn :: "real \<Rightarrow> AnimationAction \<Rightarrow> AnimationAction" where
  "fadeIn d a = a\<lparr> fadeInDuration := Some d \<rparr>"

definition play :: "AnimationAction \<Rightarrow> AnimationAction" where
  "play a = a\<lparr> scheduled := True \<rparr>"

definition setLoop :: "AnimationActionLoopStyles \<Rightarrow> enat \<Rightarrow> AnimationAction \<Rightarrow> AnimationAction" where
  "setLoop mode reps a = a\<lparr> loop := mode, repetitions := reps \<rparr>"

text \<open>
  \<open>actions\<close> is the object that \<^verbatim>\<open>useAnimations\<close> returns: one entry per clip name, its
  value an action or \<^verbatim>\<open>null\<close>. The entries are kept in the order \<^verbatim>\<open>Object.entries\<close> walks
  them. \<open>consoleWarnings\<close> collects what \<^verbatim>\<open>console.warn\<close> is given.
\<close>

record BearModelHook =
  actions :: "(string \<times> AnimationAction option) list"
  consoleWarnings :: "string list"
  status :: LoadingStatus

definition mountBearModel :: "(string \<times> AnimationAction option) list \<Rightarrow> BearModelHook" where
  "mountBearModel acts = \<lparr> actions = acts, consoleWarnings = [], status = Loading \<rparr>"

text \<open>
  The effect that follows the loaded scene and its clips: the status becomes loaded when
  the scene is there with at least one clip, and failed when there is no scene.
\<close>

definition statusEffect :: "bool \<Rightarrow> nat \<Rightarrow> BearModelHook \<Rightarrow> BearModelHook" where
  "statusEffect sceneLoaded clipCount h =
     (if sceneLoaded \<and> clipCount > 0 then h\<lparr> status := Loaded \<rparr>
      else if \<not> sceneLoaded then h\<lparr> status := LoadFailed \<rparr>
      else h)"

text \<open>
  \<open>actions\<close> is a plain object, so reading a property that it does not have itself goes on
  to \<^verbatim>\<open>Object.prototype\<close>. These are the names of the members found there: all of them are
  functions, except \<^verbatim>\<open>__proto__\<close>, which reads as the prototype object; none is an action
  and none has a \<^verbatim>\<open>reset\<close> method.
\<close>

definition objectPrototypeMembers :: "string list" where
  "objectPrototypeMembers =
     [''constructor'', ''hasOwnProperty'', ''isPrototypeOf'', ''propertyIsEnumerable'',
      ''toLocaleString'', ''toString'', ''valueOf'', ''__proto__'',
      ''__defineGetter__'', ''__defineSetter__'', ''__lookupGetter__'', ''__lookupSetter__'']"

text \<open>
  What \<^verbatim>\<open>actions[name]\<close> reads: the entry of the object itself when it has one under that
  name (an action or \<^verbatim>\<open>null\<close>), else an inherited member, else \<^verbatim>\<open>undefined\<close>. Only
  \<^verbatim>\<open>undefined\<close> and \<^verbatim>\<open>null\<close> are falsy.
\<close>

datatype PropertyValue = Undefined | Null | ActionObject AnimationAction | InheritedMember

definition getProperty :: "(string \<times> AnimationAction option) list \<Rightarrow> string \<Rightarrow> PropertyValue" where
  "getProperty acts actionName =
     (case map_of acts actionName of
        Some (Some a) \<Rightarrow> ActionObject a
      | Some None \<Rightarrow> Null
      | None \<Rightarrow> if actionName \<in> set objectPrototypeMembers then InheritedMember else Undefined)"

text \<open>The \<^verbatim>\<open>forEach\<close> over the entries: every action under another key is stopped.\<close>

fun stopOthers :: "string \<Rightarrow> (string \<times> AnimationAction option) list \<Rightarrow> (string \<times> AnimationAction option) list" where
  "stopOthers nm [] = []"
| "stopOthers nm ((actionName, otherAction) # rest) =
     (case otherAction of
        Some a \<Rightarrow> if actionName \<noteq> nm then (actionName, Some (stop a)) # stopOthers nm rest
                  else (actionName, otherAction) # stopOthers nm rest
      | None \<Rightarrow> (actionName, otherAction) # stopOthers nm rest)"

text \<open>
  The calls on \<^verbatim>\<open>action\<close> change the object that the entry under \<open>nm\<close> refers to; here
  the entry is rewritten.
\<close>

fun updateAction :: "string \<Rightarrow> (AnimationAction \<Rightarrow> AnimationAction) \<Rightarrow>
    (string \<times> AnimationAction option) list \<Rightarrow> (string \<times> AnimationAction option) list" where
  "updateAction nm f [] = []"
| "updateAction nm f ((actionName, v) # rest) =
     (if actionName = nm then (actionName, map_option f v) # rest
      else (actionName, v) # updateAction nm f rest)"

definition notFoundWarning :: "string \<Rightarrow> string" where
  "notFoundWarning nm = ''Animation \"'' @ nm @ ''\" not found in model''"

text \<open>
  A falsy \<^verbatim>\<open>actions[name]\<close> gives the warning and an early return. An action has the other
  actions stopped and is then started. An inherited member passes both tests as well: the
  other entries, which are all of them, are stopped, and the call of \<^verbatim>\<open>reset\<close> on it throws.
\<close>

definition playAnimation :: "string \<Rightarrow> BearModelHook \<Rightarrow> BearModelHook Outcome" where
  "playAnimation nm h =
     (case getProperty (actions h) nm of
        Undefined \<Rightarrow> Returns (h\<lparr> consoleWarnings := consoleWarnings h @ [notFoundWarning nm] \<rparr>)
      | Null \<Rightarrow> Returns (h\<lparr> consoleWarnings := consoleWarnings h @ [notFoundWarning nm] \<rparr>)
      | ActionObject action \<Rightarrow>
          Returns (h\<lparr> actions :=
               updateAction nm (setLoop LoopRepeat \<infinity>)
                 (updateAction nm (\<lambda>a. play (fadeIn 0.5 (reset a)))
                    (stopOthers nm (actions h))) \<rparr>)
      | InheritedMember \<Rightarrow>
          Throws TypeError (h\<lparr> actions := stopOthers nm (actions h) \<rparr>))"

definition stopAllAnimations :: "BearModelHook \<Rightarrow> BearModelHook" where
  "stopAllAnimations h = h\<lparr> actions := map (\<lambda>(k, v). (k, map_option stop v)) (actions h) \<rparr>"

text \<open>One call after the other; a call that throws ends the sequence.\<close>

fun playAnimations :: "BearModelHook \<Rightarrow> string list \<Rightarrow> BearModelHook Outcome" where
  "playAnimations h [] = Returns h"
| "playAnimations h (nm # names) =
     (case playAnimation nm h of
        Returns h' \<Rightarrow> playAnimations h' names
      | Throws e h' \<Rightarrow> Throws e h')"

text \<open>The names of the actions that the mixer holds as active, in the order of the entries.\<close>

definition activeActions :: "BearModelHook \<Rightarrow> string list" where
  "activeActions h =
     map fst (filter (\<lambda>(k, v). case v of Some a \<Rightarrow> scheduled a | None \<Rightarrow> False) (actions h))"

text \<open>The effect of the component BearModel that follows the \<^verbatim>\<open>animation\<close> property.\<close>

definition playEffect :: "string \<Rightarrow> BearModelHook \<Rightarrow> BearModelHook Outcome" where
  "playEffect animation h =
     (if status h = Loaded then playAnimation animation h else Returns h)"

section \<open>The error boundary (components/ErrorBoundary.tsx)\<close>

record Error =
  message :: string

record ErrorBoundaryState =
  hasError :: bool
  error :: "Error option"

text \<open>
  The property \<^verbatim>\<open>fallback\<close>, when given: a function, a node that is truthy, or a node that
  is falsy (\<^verbatim>\<open>null\<close>, \<^verbatim>\<open>false\<close>, \<^verbatim>\<open>0\<close> or the empty string).
\<close>

datatype 'n Fallback = FallbackFunction "Error \<Rightarrow> 'n" | FallbackNode 'n | FallbackFalsy

text \<open>
  What the boundary renders: its children, a fallback it was given, or its own error
  screen, which shows the message of the error when that is not empty. A falsy fallback
  fails the test \<^verbatim>\<open>if (this.props.fallback)\<close> and so gives the boundary's own screen.
\<close>

datatype 'n Rendered = Children 'n | FallbackUI 'n | DefaultErrorUI "string option"

definition initialErrorBoundaryState :: ErrorBoundaryState where
  "initialErrorBoundaryState = \<lparr> hasError = False, error = None \<rparr>"

definition getDerivedStateFromError :: "Error \<Rightarrow> ErrorBoundaryState" where
  "getDerivedStateFromError e = \<lparr> hasError = True, error = Some e \<rparr>"

definition ErrorBoundary_render :: "'n Fallback option \<Rightarrow> ErrorBoundaryState \<Rightarrow> 'n \<Rightarrow> 'n Rendered" where
  "ErrorBoundary_render fallback st children =
     (case (hasError st, error st) of
        (True, Some e) \<Rightarrow>
          (case fallback of
             Some (FallbackFunction f) \<Rightarrow> FallbackUI (f e)
           | Some (FallbackNode n) \<Rightarrow> FallbackUI n
           | Some FallbackFalsy \<Rightarrow>
               DefaultErrorUI (if message e \<noteq> [] then Some (message e) else None)
           | None \<Rightarrow> DefaultErrorUI (if message e \<noteq> [] then Some (message e) else None))
      | _ \<Rightarrow> Children children)"

section \<open>The start overlay (components/TapToStart.tsx)\<close>

text \<open>
  The overlay shows the spinner while \<open>isLoading\<close> holds and the prompt otherwise. Its click
  handler and its key handler call \<open>onStart\<close> only when \<open>isLoading\<close> is false.
\<close>

datatype TapToStartView = LoadingSpinner | TapPrompt

definition TapToStart_render :: "bool \<Rightarrow> TapToStartView" where
  "TapToStart_render isLoading = (if \<not> isLoading then TapPrompt else LoadingSpinner)"

definition handleClick :: "bool \<Rightarrow> ('s \<Rightarrow> 's) \<Rightarrow> 's \<Rightarrow> 's" where
  "handleClick isLoading onStart s = (if \<not> isLoading then onStart s else s)"

definition onKeyDown :: "bool \<Rightarrow> string \<Rightarrow> ('s \<Rightarrow> 's) \<Rightarrow> 's \<Rightarrow> 's" where
  "onKeyDown isLoading key onStart s =
     (if \<not> isLoading \<and> (key = ''Enter'' \<or> key = '' '') then onStart s else s)"

section \<open>The carousel (components/AnimationCarousel.tsx)\<close>

definition hasPrev :: "nat \<Rightarrow> bool" where
  "hasPrev selected = (selected > 0)"

definition hasNext :: "Animation list \<Rightarrow> nat \<Rightarrow> bool" where
  "hasNext animations selected = (int selected < int (length animations) - 1)"

definition handlePrev :: "nat \<Rightarrow> (nat \<Rightarrow> 's \<Rightarrow> 's) \<Rightarrow> 's \<Rightarrow> 's" where
  "handlePrev selected onAnimationSelect s =
     (if hasPrev selected then onAnimationSelect (selected - 1) s else s)"

definition handleNext :: "Animation list \<Rightarrow> nat \<Rightarrow> (nat \<Rightarrow> 's \<Rightarrow> 's) \<Rightarrow> 's \<Rightarrow> 's" where
  "handleNext animations selected onAnimationSelect s =
     (if hasNext animations selected then onAnimationSelect (selected + 1) s else s)"

definition handleKeyDown :: "Animation list \<Rightarrow> nat \<Rightarrow> string \<Rightarrow> (nat \<Rightarrow> 's \<Rightarrow> 's) \<Rightarrow> 's \<Rightarrow> 's" where
  "handleKeyDown animations selected key onAnimationSelect s =
     (if key = ''ArrowLeft'' then handlePrev selected onAnimationSelect s
      else if key = ''ArrowRight'' then handleNext animations selected onAnimationSelect s
      else s)"

section \<open>The top-level component (App)\<close>

record AppState =
  selectedIndex :: nat
  isModelLoading :: bool
  hasStarted :: bool
  boundary :: ErrorBoundaryState

definition initialAppState :: AppState where
  "initialAppState =
     \<lparr> selectedIndex = 0, isModelLoading = True, hasStarted = False,
       boundary = initialErrorBoundaryState \<rparr>"

definition handleAnimationSelect :: "nat \<Rightarrow> AppState \<Rightarrow> AppState" where
  "handleAnimationSelect index s = s\<lparr> selectedIndex := index \<rparr>"

definition onStart :: "AppState \<Rightarrow> AppState" where
  "onStart s = s\<lparr> hasStarted := True \<rparr>"

definition onLoadComplete :: "AppState \<Rightarrow> AppState" where
  "onLoadComplete s = s\<lparr> isModelLoading := False \<rparr>"

definition onLoadError :: "AppState \<Rightarrow> AppState" where
  "onLoadError s = s\<lparr> isModelLoading := False \<rparr>"

text \<open>The scale and the offset of the model, and the shape of the background, by device category.\<close>

definition bearScale :: "DeviceType \<Rightarrow> real" where
  "bearScale d = (if d = Mobile then 0.28 else if d = Tablet then 0.32 else 0.4)"

definition bearYPosition :: "DeviceType \<Rightarrow> real" where
  "bearYPosition d = (if d = Mobile then - 1.5 else if d = Tablet then - 1.8 else - 2)"

definition prismBaseWidth :: "DeviceType \<Rightarrow> real" where
  "prismBaseWidth d = (if d = Mobile then 3.5 else if d = Tablet then 4.5 else 5.5)"

definition prismScale :: "DeviceType \<Rightarrow> real" where
  "prismScale d = (if d = Mobile then 2.2 else if d = Tablet then 2.8 else 3.6)"

text \<open>
  The properties the components are given. Those of the background are the ones the
  element lists; \<open>prism_bloom\<close> and \<open>prism_saturation\<close> are \<open>None\<close> when the element passes
  no such property.
\<close>

record PrismProps =
  prism_animationType :: string
  prism_timeScale :: real
  prism_height :: real
  prism_baseWidth :: real
  prism_scale :: real
  prism_hueShift :: real
  prism_colorFrequency :: real
  prism_noise :: real
  prism_glow :: real
  prism_offset_y :: real
  prism_bloom :: "real option"
  prism_saturation :: "real option"

record CanvasProps =
  canvas_dpr :: real
  canvas_antialias :: bool
  canvas_powerPreference :: string

record BearModelProps =
  bear_animation :: string
  bear_scale :: real
  bear_position :: "real \<times> real \<times> real"
  bear_targetFPS :: nat
  bear_performanceTier :: PerformanceTier

record CarouselProps =
  carousel_animations :: "Animation list"
  carousel_selectedIndex :: nat
  carousel_deviceType :: DeviceType

record AppView =
  minWidthWarning :: bool
  prism :: PrismProps
  bearRegion :: "(CanvasProps \<times> BearModelProps) Rendered"
  tapToStart :: "TapToStartView option"
  carousel :: CarouselProps

text \<open>
  One render of the component. \<^verbatim>\<open>ANIMATIONS[selectedIndex]\<close> is undefined outside the
  catalog, and reading its \<^verbatim>\<open>name\<close> then throws.
\<close>

definition App :: "AppState \<Rightarrow> UseDevicePerformanceReturn \<Rightarrow> UseResponsiveReturn \<Rightarrow> JSError + AppView" where
  "App s perf resp =
     (case getAnimationByIndex (selectedIndex s) of
        None \<Rightarrow> Inl TypeError
      | Some currentAnimation \<Rightarrow>
          Inr \<lparr> minWidthWarning = isBelowMinWidth resp,
                prism =
                  \<lparr> prism_animationType = ''rotate'', prism_timeScale = 0.5, prism_height = 3.5,
                    prism_baseWidth = prismBaseWidth (deviceType resp),
                    prism_scale = prismScale (deviceType resp),
                    prism_hueShift = 0, prism_colorFrequency = 1, prism_noise = 0,
                    prism_glow = 1, prism_offset_y = - 50,
                    prism_bloom = None, prism_saturation = None \<rparr>,
                bearRegion =
                  ErrorBoundary_render None (boundary s)
                    (\<lparr> canvas_dpr =
                         (if deviceType resp = Mobile then 1
                          else if ret_tier perf = High then 1.5 else 1),
                       canvas_antialias = (ret_tier perf = High),
                       canvas_powerPreference =
                         (if deviceType resp = Mobile then ''low-power'' else ''high-performance'') \<rparr>,
                     \<lparr> bear_animation = name currentAnimation,
                       bear_scale = bearScale (deviceType resp),
                       bear_position = (0, bearYPosition (deviceType resp), 0),
                       bear_targetFPS = ret_targetFPS perf,
                       bear_performanceTier = ret_tier perf \<rparr>),
                tapToStart =
                  (if \<not> hasStarted s then Some (TapToStart_render (isModelLoading s)) else None),
                carousel =
                  \<lparr> carousel_animations = ANIMATIONS,
                    carousel_selectedIndex = selectedIndex s,
                    carousel_deviceType = deviceType resp \<rparr> \<rparr>)"

text \<open>Whether the boundary renders its children, the canvas with the model in it.\<close>

definition sceneMounted :: "AppState \<Rightarrow> bool" where
  "sceneMounted s =
     (case ErrorBoundary_render None (boundary s) () of
        Children c \<Rightarrow> True
      | FallbackUI n \<Rightarrow> False
      | DefaultErrorUI m \<Rightarrow> False)"

text \<open>
  What happens to the component between renders. The overlay's handlers exist only while
  the overlay is rendered, that is while \<open>hasStarted\<close> is false. The model component calls
  \<open>onLoadComplete\<close> and \<open>onLoadError\<close> from its effects, and it can throw while rendering,
  only while the boundary renders it; an exception thrown there reaches
  \<open>getDerivedStateFromError\<close>.
\<close>

datatype AppEvent =
    OverlayClick
  | OverlayKeyDown string
  | ModelLoadComplete
  | ModelLoadError
  | CarouselPrevClick
  | CarouselNextClick
  | CarouselKeyDown string
  | SceneRenderThrows Error

fun appStep :: "AppState \<Rightarrow> AppEvent \<Rightarrow> AppState" where
  "appStep s OverlayClick =
     (if \<not> hasStarted s then handleClick (isModelLoading s) onStart s else s)"
| "appStep s (OverlayKeyDown key) =
     (if \<not> hasStarted s then onKeyDown (isModelLoading s) key onStart s else s)"
| "appStep s ModelLoadComplete = (if sceneMounted s then onLoadComplete s else s)"
| "appStep s ModelLoadError = (if sceneMounted s then onLoadError s else s)"
| "appStep s CarouselPrevClick = handlePrev (selectedIndex s) handleAnimationSelect s"
| "appStep s CarouselNextClick = handleNext ANIMATIONS (selectedIndex s) handleAnimationSelect s"
| "appStep s (CarouselKeyDown key) =
     handleKeyDown ANIMATIONS (selectedIndex s) key handleAnimationSelect s"
| "appStep s (SceneRenderThrows e) =
     (if sceneMounted s then s\<lparr> boundary := getDerivedStateFromError e \<rparr> else s)"

definition appRun :: "AppState \<Rightarrow> AppEvent list \<Rightarrow> AppState" where
  "appRun s evs = foldl appStep s evs"

text \<open>
  Where a pointer click on a button of the carousel lands. The overlay is placed over the
  whole viewport (\<^verbatim>\<open>absolute inset-0\<close>) with \<^verbatim>\<open>z-50\<close> and \<^verbatim>\<open>pointer-events-auto\<close>; the
  carousel is \<^verbatim>\<open>fixed bottom-0\<close> and has no z-index. So while the overlay is rendered it
  lies above the carousel and takes the click.
\<close>

datatype CarouselButton = PrevButton | NextButton

definition pointerClick :: "AppState \<Rightarrow> CarouselButton \<Rightarrow> AppEvent" where
  "pointerClick s b =
     (if \<not> hasStarted s then OverlayClick
      else case b of PrevButton \<Rightarrow> CarouselPrevClick | NextButton \<Rightarrow> CarouselNextClick)"

definition pointerRun :: "AppState \<Rightarrow> CarouselButton list \<Rightarrow> AppState" where
  "pointerRun s bs = foldl (\<lambda>s' b. appStep s' (pointerClick s' b)) s bs"

section \<open>Auxiliary notions and sample inputs\<close>

text \<open>Whether an entry of \<open>actions\<close> holds an action that the mixer has as active.\<close>

definition isActiveEntry :: "string \<times> AnimationAction option \<Rightarrow> bool" where
  "isActiveEntry e = (case snd e of Some a \<Rightarrow> scheduled a | None \<Rightarrow> False)"

text \<open>Whether the action set has an action under a name.\<close>

definition hasAction :: "(string \<times> AnimationAction option) list \<Rightarrow> string \<Rightarrow> bool" where
  "hasAction acts nm = (case map_of acts nm of Some (Some a) \<Rightarrow> True | _ \<Rightarrow> False)"

text \<open>The state an exception leaves when it is thrown in the scene before the model has loaded.\<close>

definition failedBeforeLoad :: "Error \<Rightarrow> AppState" where
  "failedBeforeLoad e = appStep initialAppState (SceneRenderThrows e)"

text \<open>A phone whose browser gives no rendering context at all.\<close>

definition phoneWithoutWebGL :: Browser where
  "phoneWithoutWebGL =
     \<lparr> context_webgl = None, context_experimental_webgl = None,
       userAgent = ''Mozilla/5.0 (Linux; Android 12) Mobile'',
       deviceMemory = Some 2, devicePixelRatio = Some 3 \<rparr>"

text \<open>A phone with a strong graphics chip, a mobile user agent and little memory.\<close>

definition gamingPhone :: Browser where
  "gamingPhone =
     \<lparr> context_webgl = None,
       context_experimental_webgl =
         Some \<lparr> hasGetExtension = True, unmaskedRenderer = Some ''NVIDIA Tegra X1'' \<rparr>,
       userAgent = ''Mozilla/5.0 (Linux; Android 12) Mobile Safari'',
       deviceMemory = Some 2, devicePixelRatio = Some 3 \<rparr>"

text \<open>
  A loaded model with four entries: two actions active (one of them paused in the middle
  of a fade), one stopped, and one entry without an action.
\<close>

definition loadedHook :: BearModelHook where
  "loadedHook =
     \<lparr> actions =
         [(''jumping'', Some \<lparr> scheduled = True, paused = False, enabled = True, time = 0.7,
              fadeInDuration = None, loop = LoopRepeat, repetitions = \<infinity> \<rparr>),
          (''punching'', Some \<lparr> scheduled = False, paused = False, enabled = True, time = 0,
              fadeInDuration = None, loop = LoopOnce, repetitions = 1 \<rparr>),
          (''running'', Some \<lparr> scheduled = True, paused = True, enabled = True, time = 1.2,
              fadeInDuration = Some 0.5, loop = LoopRepeat, repetitions = \<infinity> \<rparr>),
          (''walking'', None)],
       consoleWarnings = [],
       status = Loaded \<rparr>"

section \<open>Device category is a step function of the width\<close>

text \<open>
  C4. The device category returned by the hook depends on the width only: it is mobile
  below 768, tablet from 768 up to but excluding 1024, and desktop from 1024 on, whatever
  the height. In particular 767 is mobile, 768 is tablet and 1024 is desktop.
\<close>

theorem deviceType_step_function:
  "deviceType (useResponsive_return w h) =
     (if w < 768 then Mobile else if w < 1024 then Tablet else Desktop)
   \<and> deviceType (useResponsive_return w h) = deviceType (useResponsive_return w h')
   \<and> deviceType (useResponsive_return 767 h) = Mobile
   \<and> deviceType (useResponsive_return 768 h) = Tablet
   \<and> deviceType (useResponsive_return 1024 h) = Desktop"
  by (simp add: useResponsive_return_def deviceType_of_def
      BREAKPOINTS_mobile_def BREAKPOINTS_tablet_def)

section \<open>Resizing from desktop to mobile width\<close>

text \<open>
  C7, as the claim words it, does not hold. A window 1280 wide that is resized to 600 does
  change the category from desktop to mobile once 100 ms have passed, but the scale of the
  model goes from 0.4 to 0.28, which is not half of 0.4.
\<close>

theorem resize_halves_scale_counterexample:
  "\<not> (deviceType (useResponsive (mountViewport 1280 800)) = Desktop
      \<and> deviceType (useResponsive
            (viewportRun (mountViewport 1280 800) [WindowResized 600 800, Elapsed 100])) = Mobile
      \<and> bearScale (deviceType (useResponsive
            (viewportRun (mountViewport 1280 800) [WindowResized 600 800, Elapsed 100])))
          = bearScale (deviceType (useResponsive (mountViewport 1280 800))) / 2)"
  by (simp add: useResponsive_def useResponsive_return_def mountViewport_def viewportRun_def
      handleResize_def timeoutCallback_def deviceType_of_def BREAKPOINTS_mobile_def
      BREAKPOINTS_tablet_def bearScale_def)

text \<open>
  C7, amended. A hook mounted in a window 1280 wide reports desktop. After the window is
  resized to a width of 600 and at least 100 ms have passed, it reports mobile; it still
  reports desktop while fewer than 100 ms have passed. The scale of the model falls from
  the desktop preset 0.4 to the mobile preset 0.28, which is seven tenths of it.
\<close>

theorem resize_to_mobile_scale:
  "deviceType (useResponsive (mountViewport 1280 h)) = Desktop
   \<and> deviceType (useResponsive
        (viewportRun (mountViewport 1280 h) [WindowResized 600 h', Elapsed (100 + d)])) = Mobile
   \<and> (d' < 100 \<longrightarrow> deviceType (useResponsive
        (viewportRun (mountViewport 1280 h) [WindowResized 600 h', Elapsed d'])) = Desktop)
   \<and> bearScale Desktop = 0.4 \<and> bearScale Mobile = 0.28
   \<and> bearScale Mobile = 0.7 * bearScale Desktop
   \<and> bearScale Mobile < bearScale Desktop"
  by (simp add: useResponsive_def useResponsive_return_def mountViewport_def viewportRun_def
      handleResize_def timeoutCallback_def deviceType_of_def BREAKPOINTS_mobile_def
      BREAKPOINTS_tablet_def bearScale_def)

theorem resize_to_mobile_scale_witness:
  "deviceType (useResponsive
      (viewportRun (mountViewport 1280 800) [WindowResized 600 800, Elapsed 99])) = Desktop
   \<and> deviceType (useResponsive
      (viewportRun (mountViewport 1280 800) [WindowResized 600 800, Elapsed 100])) = Mobile"
  using resize_to_mobile_scale [of 800 800 0 99] by simp

section \<open>Device capability detection\<close>

lemma tierRank_mobileCap: "tierRank (mobileCap t) \<le> tierRank t"
  by (cases t) (simp_all add: mobileCap_def)

lemma tierRank_memoryCap: "tierRank (memoryCap t) \<le> tierRank t"
  by (cases t) (simp_all add: memoryCap_def)

lemma performanceRun_no_override:
  "\<forall>ev \<in> set evs. \<not> isOverride ev \<Longrightarrow> performanceRun s evs = s"
  unfolding performanceRun_def
proof (induction evs arbitrary: s)
  case Nil
  then show ?case by simp
next
  case (Cons ev evs)
  then show ?case by (cases ev) simp_all
qed

lemma gamingPhone_renderer:
  "str_includes ''NVIDIA Tegra X1'' ''NVIDIA'' \<and> \<not> str_includes ''NVIDIA Tegra X1'' ''Intel''"
  by code_simp

lemma gamingPhone_mobile: "isMobileUserAgent (userAgent gamingPhone)"
  unfolding gamingPhone_def by code_simp

lemma gamingPhone_classified:
  "tier (rendererStep \<lparr> hasGetExtension = True, unmaskedRenderer = Some ''NVIDIA Tegra X1'' \<rparr>
     initialDevicePerformance) = High"
  using gamingPhone_renderer by (simp add: rendererStep_def classifyRenderer_def)

lemma gamingPhone_mount: "tier (mountDevicePerformance gamingPhone) = Low"
proof -
  have g: "getContext gamingPhone =
      Some \<lparr> hasGetExtension = True, unmaskedRenderer = Some ''NVIDIA Tegra X1'' \<rparr>"
    by (simp add: getContext_def gamingPhone_def)
  have m: "isLowMemory (deviceMemory gamingPhone)"
    by (simp add: isLowMemory_def gamingPhone_def)
  show ?thesis
    using gamingPhone_classified gamingPhone_mobile m
    by (simp add: mountDevicePerformance_def detectEffect_def g memoryStep_def mobileStep_def
        mobileCap_def memoryCap_def)
qed

text \<open>
  C5. When the probe finds no usable rendering context (the canvas gives none, or what it
  gives has no \<^verbatim>\<open>getExtension\<close>), the hook reports the low tier, no WebGL support and a
  target of 18 frames per second. The renderer string is not read (\<open>gpuInfo\<close> stays empty)
  and neither the user agent nor the device memory has any influence on the result.
\<close>

theorem no_webgl_reports_low:
  assumes "case getContext b of None \<Rightarrow> True | Some gl \<Rightarrow> \<not> hasGetExtension gl"
  shows "mountDevicePerformance b = \<lparr> tier = Low, gpuInfo = [], supportsWebGL = False \<rparr>
    \<and> ret_tier (useDevicePerformance b (mountDevicePerformance b)) = Low
    \<and> ret_supportsWebGL (useDevicePerformance b (mountDevicePerformance b)) = False
    \<and> ret_targetFPS (useDevicePerformance b (mountDevicePerformance b)) = 18
    \<and> mountDevicePerformance (b\<lparr> userAgent := ua, deviceMemory := mem \<rparr>) = mountDevicePerformance b"
proof -
  have m: "mountDevicePerformance b = \<lparr> tier = Low, gpuInfo = [], supportsWebGL = False \<rparr>"
    using assms
    by (simp add: mountDevicePerformance_def detectEffect_def initialDevicePerformance_def
        split: option.splits)
  have g: "getContext (b\<lparr> userAgent := ua, deviceMemory := mem \<rparr>) = getContext b"
    by (simp add: getContext_def split: option.splits)
  have m': "mountDevicePerformance (b\<lparr> userAgent := ua, deviceMemory := mem \<rparr>)
      = \<lparr> tier = Low, gpuInfo = [], supportsWebGL = False \<rparr>"
    using assms g
    by (simp add: mountDevicePerformance_def detectEffect_def initialDevicePerformance_def
        split: option.splits)
  show ?thesis
    by (simp add: m m' useDevicePerformance_def targetFPS_of_def)
qed

theorem no_webgl_reports_low_witness:
  "mountDevicePerformance phoneWithoutWebGL = \<lparr> tier = Low, gpuInfo = [], supportsWebGL = False \<rparr>
   \<and> ret_targetFPS (useDevicePerformance phoneWithoutWebGL
        (mountDevicePerformance phoneWithoutWebGL)) = 18
   \<and> isMobileUserAgent (userAgent phoneWithoutWebGL)
   \<and> isLowMemory (deviceMemory phoneWithoutWebGL)"
proof -
  have h: "case getContext phoneWithoutWebGL of None \<Rightarrow> True | Some gl \<Rightarrow> \<not> hasGetExtension gl"
    by (simp add: getContext_def phoneWithoutWebGL_def)
  have ua: "isMobileUserAgent (userAgent phoneWithoutWebGL)"
    unfolding phoneWithoutWebGL_def by code_simp
  have mem: "isLowMemory (deviceMemory phoneWithoutWebGL)"
    by (simp add: phoneWithoutWebGL_def isLowMemory_def)
  show ?thesis
    using no_webgl_reports_low [OF h] ua mem by blast
qed

text \<open>
  C6. On the order low, medium, high, each of the two caps sends high to medium and every
  other tier to low, so neither returns a tier above the one it is given. Hence the step
  for mobile user agents and the step for little memory never raise the tier, the tier the
  effect ends with is not above the one the renderer classification produced, and after
  the effect has run the tier stays as it is under any number of renders: only a call of
  the setter with a tier of the caller's choice can raise it.
\<close>

theorem tier_caps_never_raise:
  "mobileCap High = Medium \<and> mobileCap Medium = Low \<and> mobileCap Low = Low
   \<and> memoryCap High = Medium \<and> memoryCap Medium = Low \<and> memoryCap Low = Low
   \<and> tierRank (mobileCap t) \<le> tierRank t
   \<and> tierRank (memoryCap t) \<le> tierRank t
   \<and> tierRank (tier (mobileStep b s)) \<le> tierRank (tier s)
   \<and> tierRank (tier (memoryStep b s)) \<le> tierRank (tier s)
   \<and> (getContext b = Some gl \<and> hasGetExtension gl \<longrightarrow>
        tierRank (tier (detectEffect b s)) \<le> tierRank (tier (rendererStep gl s)))
   \<and> tier (performanceStep s Rerender) = tier s
   \<and> ((\<forall>ev \<in> set evs. \<not> isOverride ev) \<longrightarrow>
        tier (performanceRun (mountDevicePerformance b) evs) = tier (mountDevicePerformance b))"
proof -
  have mob: "tierRank (tier (mobileStep b s')) \<le> tierRank (tier s')" for s'
    by (simp add: mobileStep_def tierRank_mobileCap)
  have mem: "tierRank (tier (memoryStep b s')) \<le> tierRank (tier s')" for s'
    by (simp add: memoryStep_def tierRank_memoryCap)
  have both: "tierRank (tier (memoryStep b (mobileStep b s'))) \<le> tierRank (tier s')" for s'
    using mem [of "mobileStep b s'"] mob [of s'] by linarith
  have det: "getContext b = Some gl \<and> hasGetExtension gl \<longrightarrow>
        tierRank (tier (detectEffect b s)) \<le> tierRank (tier (rendererStep gl s))"
    using both [of "rendererStep gl s"] by (simp add: detectEffect_def)
  have run: "(\<forall>ev \<in> set evs. \<not> isOverride ev) \<longrightarrow>
        tier (performanceRun (mountDevicePerformance b) evs) = tier (mountDevicePerformance b)"
    by (simp add: performanceRun_no_override)
  have caps: "mobileCap High = Medium \<and> mobileCap Medium = Low \<and> mobileCap Low = Low
   \<and> memoryCap High = Medium \<and> memoryCap Medium = Low \<and> memoryCap Low = Low"
    by (simp add: mobileCap_def memoryCap_def)
  show ?thesis
    using caps tierRank_mobileCap [of t] tierRank_memoryCap [of t] mob [of s] mem [of s] det run
    by simp
qed

theorem tier_caps_never_raise_witness:
  "tier (rendererStep \<lparr> hasGetExtension = True, unmaskedRenderer = Some ''NVIDIA Tegra X1'' \<rparr>
      initialDevicePerformance) = High
   \<and> tier (mountDevicePerformance gamingPhone) = Low
   \<and> tier (performanceRun (mountDevicePerformance gamingPhone) [Rerender, Rerender]) = Low
   \<and> tier (performanceRun (mountDevicePerformance gamingPhone) [Rerender, SetTier High]) = High"
proof -
  have e: "\<forall>ev \<in> set [Rerender, Rerender]. \<not> isOverride ev"
    by simp
  have kept: "tier (performanceRun (mountDevicePerformance gamingPhone) [Rerender, Rerender]) =
      tier (mountDevicePerformance gamingPhone)"
    using tier_caps_never_raise [of _ gamingPhone _ _ "[Rerender, Rerender]"] e by blast
  have over: "tier (performanceRun (mountDevicePerformance gamingPhone) [Rerender, SetTier High]) = High"
    by (simp add: performanceRun_def)
  show ?thesis
    using gamingPhone_classified gamingPhone_mount kept over by simp
qed

text \<open>
  C10. The pixel ratio the hook returns never exceeds 2. It is 1 when the browser defines
  no device pixel ratio, and the smaller of 2 and the device pixel ratio otherwise.
\<close>

theorem pixelRatio_at_most_two:
  "ret_pixelRatio (useDevicePerformance b s) \<le> 2
   \<and> (devicePixelRatio b = None \<longrightarrow> ret_pixelRatio (useDevicePerformance b s) = 1)
   \<and> (\<forall>r. devicePixelRatio b = Some r \<and> r \<noteq> 0 \<longrightarrow>
         ret_pixelRatio (useDevicePerformance b s) = min 2 r)"
  by (simp add: useDevicePerformance_def pixelRatio_of_def)

theorem pixelRatio_at_most_two_witness:
  "ret_pixelRatio (useDevicePerformance gamingPhone initialDevicePerformance) = 2
   \<and> ret_pixelRatio (useDevicePerformance (gamingPhone\<lparr> devicePixelRatio := None \<rparr>)
        initialDevicePerformance) = 1
   \<and> ret_pixelRatio (useDevicePerformance (gamingPhone\<lparr> devicePixelRatio := Some 1.5 \<rparr>)
        initialDevicePerformance) = 1.5"
proof -
  have a: "devicePixelRatio gamingPhone = Some 3 \<and> (3::real) \<noteq> 0"
    by (simp add: gamingPhone_def)
  have b: "devicePixelRatio (gamingPhone\<lparr> devicePixelRatio := None \<rparr>) = None"
    by simp
  have c: "devicePixelRatio (gamingPhone\<lparr> devicePixelRatio := Some 1.5 \<rparr>) = Some 1.5
      \<and> (1.5::real) \<noteq> 0"
    by simp
  have "ret_pixelRatio (useDevicePerformance gamingPhone initialDevicePerformance) = min 2 3"
    using pixelRatio_at_most_two [of gamingPhone initialDevicePerformance] a by blast
  moreover have "ret_pixelRatio (useDevicePerformance (gamingPhone\<lparr> devicePixelRatio := None \<rparr>)
        initialDevicePerformance) = 1"
    using pixelRatio_at_most_two
      [of "gamingPhone\<lparr> devicePixelRatio := None \<rparr>" initialDevicePerformance] b
    by blast
  moreover have "ret_pixelRatio
      (useDevicePerformance (gamingPhone\<lparr> devicePixelRatio := Some 1.5 \<rparr>)
        initialDevicePerformance) = min 2 1.5"
    using pixelRatio_at_most_two
      [of "gamingPhone\<lparr> devicePixelRatio := Some 1.5 \<rparr>" initialDevicePerformance] c
    by blast
  ultimately show ?thesis
    by simp
qed

section \<open>Animation playback\<close>

lemma stopOthers_keys: "map fst (stopOthers nm acts) = map fst acts"
  by (induction nm acts rule: stopOthers.induct) (simp_all split: option.splits)

lemma updateAction_keys: "map fst (updateAction nm f acts) = map fst acts"
  by (induction nm f acts rule: updateAction.induct) simp_all

lemma map_of_stopOthers:
  "map_of (stopOthers nm acts) k =
     (if k \<noteq> nm then map_option (map_option stop) (map_of acts k) else map_of acts k)"
  by (induction nm acts rule: stopOthers.induct) (auto split: option.splits)

lemma map_of_updateAction:
  "map_of (updateAction nm f acts) k =
     (if k = nm then map_option (map_option f) (map_of acts k) else map_of acts k)"
  by (induction nm f acts rule: updateAction.induct) auto

lemma isActiveEntry_simps [simp]:
  "isActiveEntry (k, Some a) = scheduled a"
  "isActiveEntry (k, None) = False"
  by (simp_all add: isActiveEntry_def)

lemma isActiveEntry_eq:
  "(\<lambda>(k, v). case v of Some a \<Rightarrow> scheduled a | None \<Rightarrow> False) = isActiveEntry"
  by (auto simp: fun_eq_iff isActiveEntry_def)

lemma activeActions_alt: "activeActions h = map fst (filter isActiveEntry (actions h))"
  by (simp add: activeActions_def isActiveEntry_eq)

lemma stopOthers_absent_inactive:
  "nm \<notin> fst ` set acts \<Longrightarrow> filter isActiveEntry (stopOthers nm acts) = []"
  by (induction nm acts rule: stopOthers.induct)
     (auto simp: stop_def reset_def split: option.splits)

text \<open>
  After the other actions are stopped and the requested one is started, the requested
  entry is the only active one, provided the keys are distinct, as those of an object are.
\<close>

lemma started_only_active:
  assumes "distinct (map fst acts)" and "map_of acts nm = Some (Some a)"
    and "\<And>x. scheduled (g x)" and "\<And>x. scheduled (g' x) = scheduled x"
  shows "map fst (filter isActiveEntry
           (updateAction nm g' (updateAction nm g (stopOthers nm acts)))) = [nm]"
  using assms(1,2)
proof (induction acts)
  case Nil
  then show ?case by simp
next
  case (Cons e acts)
  obtain k v where e: "e = (k, v)" by (cases e)
  show ?case
  proof (cases "k = nm")
    case True
    with Cons.prems e have v: "v = Some a" and absent: "nm \<notin> fst ` set acts" by auto
    have rest: "filter isActiveEntry (stopOthers nm acts) = []"
      using absent by (rule stopOthers_absent_inactive)
    show ?thesis
      using True e v rest assms(3,4) by simp
  next
    case False
    with Cons.prems e have d: "distinct (map fst acts)" and m: "map_of acts nm = Some (Some a)"
      by auto
    have head: "\<not> isActiveEntry (k, map_option stop v)"
      by (cases v) (simp_all add: stop_def reset_def)
    show ?thesis
      using False e head Cons.IH [OF d m]
      by (cases v) simp_all
  qed
qed

lemma hasAction_iff: "hasAction acts nm \<longleftrightarrow> (\<exists>a. map_of acts nm = Some (Some a))"
  by (auto simp: hasAction_def split: option.splits)

lemma getProperty_action:
  "getProperty acts nm = ActionObject a \<longleftrightarrow> map_of acts nm = Some (Some a)"
  by (simp add: getProperty_def split: option.splits)

lemma playAnimation_found:
  assumes "map_of (actions h) nm = Some (Some a)"
  shows "playAnimation nm h =
     Returns (h\<lparr> actions := updateAction nm (setLoop LoopRepeat \<infinity>)
                     (updateAction nm (\<lambda>a. play (fadeIn 0.5 (reset a)))
                        (stopOthers nm (actions h))) \<rparr>)"
  using assms by (simp add: playAnimation_def getProperty_def)

text \<open>One call with a name that has an action.\<close>

lemma playAnimation_step:
  assumes "distinct (map fst (actions h))" and "map_of (actions h) nm = Some (Some a)"
  shows "\<exists>h'. playAnimation nm h = Returns h'
    \<and> activeActions h' = [nm]
    \<and> map_of (actions h') nm = Some (Some (setLoop LoopRepeat \<infinity> (play (fadeIn 0.5 (reset a)))))
    \<and> map fst (actions h') = map fst (actions h)
    \<and> (\<forall>k. hasAction (actions h') k = hasAction (actions h) k)
    \<and> consoleWarnings h' = consoleWarnings h"
proof -
  define h' where "h' = h\<lparr> actions := updateAction nm (setLoop LoopRepeat \<infinity>)
                     (updateAction nm (\<lambda>a. play (fadeIn 0.5 (reset a)))
                        (stopOthers nm (actions h))) \<rparr>"
  have ret: "playAnimation nm h = Returns h'"
    unfolding h'_def by (rule playAnimation_found [OF assms(2)])
  have "map fst (filter isActiveEntry (actions h')) = [nm]"
    unfolding h'_def
    using started_only_active [OF assms(1,2), of "\<lambda>a. play (fadeIn 0.5 (reset a))"
        "setLoop LoopRepeat \<infinity>"]
    by (simp add: play_def setLoop_def)
  then have active: "activeActions h' = [nm]"
    by (simp add: activeActions_alt)
  have same: "map_of (actions h') nm =
      Some (Some (setLoop LoopRepeat \<infinity> (play (fadeIn 0.5 (reset a)))))"
    using assms(2) by (simp add: h'_def map_of_updateAction map_of_stopOthers)
  have keys: "map fst (actions h') = map fst (actions h)"
    by (simp add: h'_def updateAction_keys stopOthers_keys)
  have ex: "hasAction (actions h') k = hasAction (actions h) k" for k
    by (auto simp: h'_def hasAction_def map_of_updateAction map_of_stopOthers
        split: option.splits)
  have warn: "consoleWarnings h' = consoleWarnings h"
    by (simp add: h'_def)
  show ?thesis
    using ret active same keys ex warn by blast
qed

text \<open>A sequence of calls whose names all have an action.\<close>

lemma playAnimations_all_found:
  assumes "distinct (map fst (actions h))"
    and "\<forall>nm \<in> set names. hasAction (actions h) nm"
  shows "\<exists>h'. playAnimations h names = Returns h'
    \<and> map fst (actions h') = map fst (actions h)
    \<and> (\<forall>k. hasAction (actions h') k = hasAction (actions h) k)
    \<and> consoleWarnings h' = consoleWarnings h
    \<and> (names \<noteq> [] \<longrightarrow>
         activeActions h' = [last names]
         \<and> (\<exists>a. map_of (actions h') (last names) = Some (Some a)
               \<and> scheduled a \<and> \<not> paused a \<and> enabled a
               \<and> loop a = LoopRepeat \<and> repetitions a = \<infinity>))"
  using assms
proof (induction names arbitrary: h)
  case Nil
  then show ?case by simp
next
  case (Cons nm names)
  from Cons.prems(2) obtain a where a: "map_of (actions h) nm = Some (Some a)"
    by (auto simp: hasAction_iff)
  from playAnimation_step [OF Cons.prems(1) a] obtain h1 where
    ret: "playAnimation nm h = Returns h1"
    and active: "activeActions h1 = [nm]"
    and same: "map_of (actions h1) nm =
      Some (Some (setLoop LoopRepeat \<infinity> (play (fadeIn 0.5 (reset a)))))"
    and keys: "map fst (actions h1) = map fst (actions h)"
    and ex: "\<forall>k. hasAction (actions h1) k = hasAction (actions h) k"
    and warn: "consoleWarnings h1 = consoleWarnings h"
    by blast
  have d1: "distinct (map fst (actions h1))"
    using Cons.prems(1) keys by simp
  have e1: "\<forall>n \<in> set names. hasAction (actions h1) n"
    using Cons.prems(2) ex by simp
  from Cons.IH [OF d1 e1] obtain h' where
    run: "playAnimations h1 names = Returns h'"
    and keys': "map fst (actions h') = map fst (actions h1)"
    and ex': "\<forall>k. hasAction (actions h') k = hasAction (actions h1) k"
    and warn': "consoleWarnings h' = consoleWarnings h1"
    and lastp: "names \<noteq> [] \<longrightarrow>
         activeActions h' = [last names]
         \<and> (\<exists>a. map_of (actions h') (last names) = Some (Some a)
               \<and> scheduled a \<and> \<not> paused a \<and> enabled a
               \<and> loop a = LoopRepeat \<and> repetitions a = \<infinity>)"
    by blast
  have whole: "playAnimations h (nm # names) = Returns h'"
    using ret run by simp
  have final: "activeActions h' = [last (nm # names)]
         \<and> (\<exists>a. map_of (actions h') (last (nm # names)) = Some (Some a)
               \<and> scheduled a \<and> \<not> paused a \<and> enabled a
               \<and> loop a = LoopRepeat \<and> repetitions a = \<infinity>)"
  proof (cases "names = []")
    case True
    with run have "h' = h1" by simp
    then show ?thesis
      using True active same by (simp add: setLoop_def play_def fadeIn_def reset_def)
  next
    case False
    then show ?thesis using lastp by simp
  qed
  show ?case
    using whole keys keys' ex ex' warn warn' final by auto
qed

text \<open>
  C2. Take any action set with distinct keys and any non-empty list of names that all have
  an action in it. After \<open>playAnimation\<close> has been called with each name in turn, whatever
  was playing before, every call has returned and the active actions are exactly one, the
  one named in the last call; it is enabled, not paused, and set to repeat without end;
  and no warning was written. A list that repeats a name, such as the same name twice, is
  one such list.
\<close>

theorem playAnimation_last_call_wins:
  assumes "distinct (map fst (actions h))"
    and "names \<noteq> []"
    and "\<forall>nm \<in> set names. hasAction (actions h) nm"
  shows "\<exists>h'. playAnimations h names = Returns h'
    \<and> activeActions h' = [last names]
    \<and> (\<exists>a. getProperty (actions h') (last names) = ActionObject a
          \<and> scheduled a \<and> \<not> paused a \<and> enabled a
          \<and> loop a = LoopRepeat \<and> repetitions a = \<infinity>)
    \<and> consoleWarnings h' = consoleWarnings h"
proof -
  from playAnimations_all_found [OF assms(1,3)] assms(2) obtain h' where
    run: "playAnimations h names = Returns h'"
    and warn: "consoleWarnings h' = consoleWarnings h"
    and active: "activeActions h' = [last names]"
    and a: "\<exists>a. map_of (actions h') (last names) = Some (Some a)
               \<and> scheduled a \<and> \<not> paused a \<and> enabled a
               \<and> loop a = LoopRepeat \<and> repetitions a = \<infinity>"
    by blast
  from a have "\<exists>a. getProperty (actions h') (last names) = ActionObject a
          \<and> scheduled a \<and> \<not> paused a \<and> enabled a
          \<and> loop a = LoopRepeat \<and> repetitions a = \<infinity>"
    by (simp add: getProperty_action)
  then show ?thesis
    using run warn active by blast
qed

theorem playAnimation_last_call_wins_witness:
  "activeActions loadedHook = [''jumping'', ''running'']
   \<and> (\<exists>h'. playAnimations loadedHook [''jumping'', ''punching'', ''punching''] = Returns h'
         \<and> activeActions h' = [''punching''])"
proof -
  have d: "distinct (map fst (actions loadedHook))"
    by (simp add: loadedHook_def)
  have n: "[''jumping'', ''punching'', ''punching''] \<noteq> []"
    by simp
  have e: "\<forall>nm \<in> set [''jumping'', ''punching'', ''punching''].
      hasAction (actions loadedHook) nm"
    by (simp add: loadedHook_def hasAction_def)
  have before: "activeActions loadedHook = [''jumping'', ''running'']"
    by (simp add: loadedHook_def activeActions_def)
  show ?thesis
    using playAnimation_last_call_wins [OF d n e] before by auto
qed





section \<open>The top-level component\<close>

lemma length_ANIMATIONS: "length ANIMATIONS = 40"
  by (simp add: ANIMATIONS_def)

lemma ANIMATIONS_2:
  "ANIMATIONS ! 2 =
     \<lparr> id_field = ''punching'', name = ''punching'', displayName = ''Punching'', duration = 1.5,
       colorScheme = \<lparr> hueShift = - 0.5, colorFrequency = 1.6, bloom = 1.7, saturation = 1.8 \<rparr>,
       category = Action \<rparr>"
  by (simp add: ANIMATIONS_def)

lemma select_twice:
  "appRun initialAppState [CarouselNextClick, CarouselNextClick] =
     initialAppState\<lparr> selectedIndex := 2 \<rparr>"
  by (simp add: appRun_def initialAppState_def handleNext_def hasNext_def length_ANIMATIONS
      handleAnimationSelect_def)

lemma sceneMounted_initial: "sceneMounted initialAppState"
  by (simp add: sceneMounted_def initialAppState_def ErrorBoundary_render_def
      initialErrorBoundaryState_def)

lemma sceneMounted_boundary:
  "boundary s' = boundary s \<Longrightarrow> sceneMounted s' = sceneMounted s"
  by (simp add: sceneMounted_def)

lemma sceneMounted_after_throw: "\<not> sceneMounted (s\<lparr> boundary := getDerivedStateFromError e \<rparr>)"
  by (simp add: sceneMounted_def ErrorBoundary_render_def getDerivedStateFromError_def)

lemma appStep_hasStarted: "hasStarted s \<Longrightarrow> hasStarted (appStep s ev)"
  by (cases ev)
     (simp_all add: onLoadComplete_def onLoadError_def handlePrev_def handleNext_def
       handleKeyDown_def handleAnimationSelect_def)

lemma appRun_hasStarted: "hasStarted s \<Longrightarrow> hasStarted (appRun s evs)"
  unfolding appRun_def
  by (induction evs arbitrary: s) (simp_all add: appStep_hasStarted)

text \<open>
  C1. The component does not do what the claim says. From the first catalog entry, two
  steps of the carousel select the third entry, ``punching'', whose colour scheme has a
  hue shift of \<open>- 0.5\<close>; the model is told to play ``punching'', but the background is
  rendered with a hue shift of 0 and a colour frequency of 1, and is given no bloom and
  no saturation, as it is for every selection.
\<close>

theorem App_background_colors_fixed:
  "selectedIndex (appRun initialAppState [CarouselNextClick, CarouselNextClick]) = 2
   \<and> hueShift (colorScheme (ANIMATIONS ! 2)) = - 0.5
   \<and> (case App (appRun initialAppState [CarouselNextClick, CarouselNextClick]) perf resp of
         Inl err \<Rightarrow> False
       | Inr v \<Rightarrow>
           prism_hueShift (prism v) = 0 \<and> prism_colorFrequency (prism v) = 1
           \<and> prism_bloom (prism v) = None \<and> prism_saturation (prism v) = None
           \<and> (\<exists>c m. bearRegion v = Children (c, m) \<and> bear_animation m = ''punching''))"
  unfolding select_twice
  by (simp add: ANIMATIONS_2 App_def getAnimationByIndex_def length_ANIMATIONS
      initialAppState_def ErrorBoundary_render_def initialErrorBoundaryState_def)

text \<open>
  C8, as the claim words it, does not hold. A tap made while the model is loading is not
  kept: after such a tap and the end of loading, the overlay has not been dismissed.
\<close>

theorem early_tap_is_registered_counterexample:
  "\<not> hasStarted (appRun initialAppState [OverlayClick, ModelLoadComplete])
   \<and> \<not> isModelLoading (appRun initialAppState [OverlayClick, ModelLoadComplete])"
  using sceneMounted_initial
  by (simp add: appRun_def initialAppState_def handleClick_def onLoadComplete_def)

text \<open>
  C8, amended. While the model is loading, a tap or a key press on the overlay changes
  nothing. Once loading is over, a tap dismisses the overlay, and an overlay that has been
  dismissed stays dismissed whatever happens next, so it is dismissed at most once. Until
  then the overlay shows the loading indicator exactly while the model is loading and the
  prompt afterwards. A tap before the end of loading therefore has to be followed by a
  second tap after it.
\<close>

theorem overlay_needs_tap_after_load:
  "(isModelLoading s \<longrightarrow> appStep s OverlayClick = s \<and> appStep s (OverlayKeyDown key) = s)
   \<and> (\<not> isModelLoading s \<longrightarrow> hasStarted (appStep s OverlayClick))
   \<and> (hasStarted s \<longrightarrow> hasStarted (appRun s evs))
   \<and> (App s perf resp = Inr v \<longrightarrow>
        tapToStart v =
          (if hasStarted s then None
           else if isModelLoading s then Some LoadingSpinner else Some TapPrompt))
   \<and> hasStarted (appRun initialAppState [OverlayClick, ModelLoadComplete, OverlayClick])"
proof -
  have a: "isModelLoading s \<longrightarrow> appStep s OverlayClick = s \<and> appStep s (OverlayKeyDown key) = s"
    by (simp add: handleClick_def onKeyDown_def)
  have b: "\<not> isModelLoading s \<longrightarrow> hasStarted (appStep s OverlayClick)"
    by (simp add: handleClick_def onStart_def)
  have c: "hasStarted s \<longrightarrow> hasStarted (appRun s evs)"
    by (simp add: appRun_hasStarted)
  have d: "App s perf resp = Inr v \<longrightarrow>
        tapToStart v =
          (if hasStarted s then None
           else if isModelLoading s then Some LoadingSpinner else Some TapPrompt)"
    by (auto simp: App_def TapToStart_render_def split: option.splits)
  have e: "hasStarted (appRun initialAppState [OverlayClick, ModelLoadComplete, OverlayClick])"
    using sceneMounted_initial
    by (simp add: appRun_def initialAppState_def handleClick_def onLoadComplete_def onStart_def)
  show ?thesis
    using a b c d e by blast
qed

theorem overlay_needs_tap_after_load_witness:
  "appStep initialAppState OverlayClick = initialAppState
   \<and> hasStarted (appStep (appStep initialAppState ModelLoadComplete) OverlayClick)
   \<and> hasStarted (appRun (appStep (appStep initialAppState ModelLoadComplete) OverlayClick)
        [ModelLoadError, OverlayClick, CarouselNextClick])"
proof -
  have l: "isModelLoading initialAppState"
    by (simp add: initialAppState_def)
  have n: "\<not> isModelLoading (appStep initialAppState ModelLoadComplete)"
    using sceneMounted_initial by (simp add: onLoadComplete_def)
  have first: "appStep initialAppState OverlayClick = initialAppState"
    using overlay_needs_tap_after_load [of initialAppState] l by blast
  have second: "hasStarted (appStep (appStep initialAppState ModelLoadComplete) OverlayClick)"
    using overlay_needs_tap_after_load [of "appStep initialAppState ModelLoadComplete"] n
    by blast
  have third: "hasStarted (appRun (appStep (appStep initialAppState ModelLoadComplete) OverlayClick)
        [ModelLoadError, OverlayClick, CarouselNextClick])"
    using overlay_needs_tap_after_load
      [of "appStep (appStep initialAppState ModelLoadComplete) OverlayClick"] second
    by blast
  show ?thesis
    using first second third by blast
qed

lemma failedBeforeLoad_eq:
  "failedBeforeLoad e = initialAppState\<lparr> boundary := getDerivedStateFromError e \<rparr>"
  using sceneMounted_initial by (simp add: failedBeforeLoad_def)

lemma failedBeforeLoad_stuck:
  "isModelLoading (failedBeforeLoad e) \<and> \<not> hasStarted (failedBeforeLoad e)
   \<and> \<not> sceneMounted (failedBeforeLoad e) \<and> selectedIndex (failedBeforeLoad e) = 0"
  using sceneMounted_after_throw [where s = initialAppState and e = e]
  by (simp add: failedBeforeLoad_eq) (simp add: initialAppState_def)

text \<open>
  Once the scene is gone while the loading flag is up and the overlay has not been
  dismissed, no event changes any of the three.
\<close>

lemma stuck_step:
  assumes "isModelLoading s" and "\<not> hasStarted s" and "\<not> sceneMounted s"
  shows "isModelLoading (appStep s ev) \<and> \<not> hasStarted (appStep s ev)
    \<and> \<not> sceneMounted (appStep s ev)"
  using assms
  by (cases ev)
     (simp_all add: handleClick_def onKeyDown_def handlePrev_def handleNext_def
       handleKeyDown_def handleAnimationSelect_def sceneMounted_def)

lemma stuck_run:
  assumes "isModelLoading s" and "\<not> hasStarted s" and "\<not> sceneMounted s"
  shows "isModelLoading (appRun s evs) \<and> \<not> hasStarted (appRun s evs)"
  using assms unfolding appRun_def
proof (induction evs arbitrary: s)
  case Nil
  then show ?case by simp
next
  case (Cons ev evs)
  from stuck_step [OF Cons.prems] show ?case
    using Cons.IH [of "appStep s ev"] by simp
qed

lemma covered_click:
  assumes "isModelLoading s" and "\<not> hasStarted s"
  shows "appStep s (pointerClick s b) = s"
  using assms by (simp add: pointerClick_def handleClick_def)

lemma covered_run:
  assumes "isModelLoading s" and "\<not> hasStarted s"
  shows "pointerRun s bs = s"
  unfolding pointerRun_def
  by (induction bs) (simp_all add: covered_click [OF assms])

text \<open>
  C9. The component does not do what the claim says when the exception comes before the
  model has loaded, as it does when the model fails to load. The boundary then shows its
  error screen, but the loading flag is never cleared, since only the model component
  clears it and that component is gone. So the start overlay stays up, showing its loading
  indicator, whatever happens afterwards; it lies above the carousel, takes every pointer
  click meant for a carousel button and ignores it, and the selection never changes.
  When instead the model component reports a failed load through \<open>onLoadError\<close>, the flag
  is cleared, a tap dismisses the overlay and the next click reaches the carousel.
\<close>

theorem error_before_load_blocks_carousel:
  "(case App (failedBeforeLoad e) perf resp of
      Inl err \<Rightarrow> False
    | Inr v \<Rightarrow>
        bearRegion v = DefaultErrorUI (if message e \<noteq> [] then Some (message e) else None)
        \<and> tapToStart v = Some LoadingSpinner)
   \<and> pointerClick (failedBeforeLoad e) b = OverlayClick
   \<and> pointerRun (failedBeforeLoad e) bs = failedBeforeLoad e
   \<and> selectedIndex (pointerRun (failedBeforeLoad e) bs) = 0
   \<and> isModelLoading (appRun (failedBeforeLoad e) evs)
   \<and> \<not> hasStarted (appRun (failedBeforeLoad e) evs)
   \<and> selectedIndex (pointerRun (appRun initialAppState [ModelLoadError, OverlayClick])
        [NextButton]) = 1"
proof -
  note st = failedBeforeLoad_stuck [of e]
  have view: "case App (failedBeforeLoad e) perf resp of
      Inl err \<Rightarrow> False
    | Inr v \<Rightarrow>
        bearRegion v = DefaultErrorUI (if message e \<noteq> [] then Some (message e) else None)
        \<and> tapToStart v = Some LoadingSpinner"
    by (simp add: failedBeforeLoad_eq App_def getAnimationByIndex_def length_ANIMATIONS
        initialAppState_def ErrorBoundary_render_def getDerivedStateFromError_def
        TapToStart_render_def)
  have click: "pointerClick (failedBeforeLoad e) b = OverlayClick"
    using st by (simp add: pointerClick_def)
  have run: "pointerRun (failedBeforeLoad e) bs = failedBeforeLoad e"
    using st by (simp add: covered_run)
  have stuck: "isModelLoading (appRun (failedBeforeLoad e) evs)
      \<and> \<not> hasStarted (appRun (failedBeforeLoad e) evs)"
    using st by (simp add: stuck_run)
  have sibling: "selectedIndex (pointerRun (appRun initialAppState [ModelLoadError, OverlayClick])
        [NextButton]) = 1"
    using sceneMounted_initial
    by (simp add: pointerRun_def appRun_def pointerClick_def initialAppState_def onLoadError_def
        handleClick_def onStart_def handleNext_def hasNext_def length_ANIMATIONS
        handleAnimationSelect_def)
  show ?thesis
    using view click run stuck sibling st by simp
qed

end
